theory Spec2Isabelle
  imports Main
begin

section \<open>Python exceptions and name resolution\<close>

text \<open>
  Exceptions are values. Each constructor is a Python exception class and carries the
  message the source passes (for \<open>NameError\<close> and \<open>AttributeError\<close>: the name that
  could not be resolved). \<open>UserError\<close> stands for any other exception raised by user
  code or by a data source.
\<close>

datatype error =
    ValueError string
  | RuntimeError string
  | NameError string
  | AttributeError string
  | TypeError string
  | IndexError string
  | StopIteration
  | UserError string

text \<open>
  The names bound at the top level of \<open>flax/linen/module.py\<close>: its imports, in source
  order, then its assignments, functions and classes. A free name in a function body is
  looked up here (and then among the builtins, which hold none of the names the model
  looks up); a name that is not bound raises \<open>NameError\<close> when the expression is
  evaluated. The value found is an opaque object, written \<open>VObject\<close> below.
\<close>

definition module_globals :: "string list" where
  "module_globals =
    [''contextmanager'', ''dataclasses'', ''functools'', ''inspect'', ''os'', ''threading'',
     ''Any'', ''Callable'', ''Sequence'', ''Iterable'', ''List'', ''Optional'', ''Tuple'',
     ''Set'', ''Type'', ''Union'', ''TypeVar'', ''Generic'',
     ''jax'', ''tree_util'', ''np'', ''flax'', ''traverse_util'', ''serialization'',
     ''Scope'', ''apply'', ''Variable'', ''freeze'',
     ''PRNGKey'', ''Array'', ''T'',
     ''_check_omnistaging'', ''_indent'', ''_attr_repr'', ''_module_repr'',
     ''_DynamicContext'', ''_context'', ''_Sentinel'', ''_unspecified_parent'',
     ''_use_named_call'', ''enable_named_call'', ''disable_named_call'',
     ''_get_suffix_value_pairs'', ''_is_module_tree'', ''_all_names_on_object'',
     ''compact'', ''_get_local_method_names'', ''wrap_method'', ''_wrap_hash'',
     ''_get_unbound_fn'', ''_ModuleInternalState'',
     ''_uninitialized_module_internal_state'', ''Module'']"

section \<open>The data model\<close>

subsection \<open>The scope, at its interface\<close>

text \<open>An array value; the module system never looks inside one.\<close>

datatype array = Array "int list"

text \<open>
  Modelled from the spec: \<open>flax.core.Scope\<close> is not among the sources, only its uses
  are. A scope is identified by a path of names from the root, holds a set of reserved
  names and the variables stored at its path, keyed by (collection, name).
\<close>

record scope =
  path :: "string list"
  reservations :: "string set"
  variables :: "string \<times> string \<rightharpoonup> array"

text \<open>
  Modelled from the spec: the \<open>Variable\<close> that the scope's lookup-or-create returns,
  identified by the scope's path, the collection and the name.
\<close>

datatype variable = Variable "string list" string string

text \<open>
  Modelled from the spec: variable lookup or creation by (collection, name, initializer,
  init-args), "create on first use, else return existing and ignore initializer".
\<close>

definition scope_variable ::
  "scope \<Rightarrow> string \<Rightarrow> string \<Rightarrow> ('a \<Rightarrow> array) \<Rightarrow> 'a \<Rightarrow> variable \<times> scope" where
  "scope_variable sc col name init_fn init_args =
     (case variables sc (col, name) of
        Some v \<Rightarrow> (Variable (path sc) col name, sc)
      | None \<Rightarrow>
          (Variable (path sc) col name,
           sc\<lparr>variables := (variables sc)((col, name) \<mapsto> init_fn init_args)\<rparr>))"

text \<open>
  Modelled from the spec: parameters are sugar for \<open>variable('params', ...)\<close>; the call
  returns the stored value.
\<close>

definition scope_param ::
  "scope \<Rightarrow> string \<Rightarrow> ('a \<Rightarrow> array) \<Rightarrow> 'a \<Rightarrow> array \<times> scope" where
  "scope_param sc name init_fn init_args =
     (case variables sc (''params'', name) of
        Some v \<Rightarrow> (v, sc)
      | None \<Rightarrow>
          (init_fn init_args,
           sc\<lparr>variables := (variables sc)((''params'', name) \<mapsto> init_fn init_args)\<rparr>))"

text \<open>
  Modelled from the spec: "push" produces a child scope for a given name; "rewind" resets
  the scope-internal bookkeeping and leaves the stored variables unaffected.
\<close>

definition push :: "scope \<Rightarrow> string \<Rightarrow> scope" where
  "push sc name = \<lparr>path = path sc @ [name], reservations = {}, variables = Map.empty\<rparr>"

definition rewound :: "scope \<Rightarrow> scope" where
  "rewound sc = sc\<lparr>reservations := {}\<rparr>"

subsection \<open>Python values held in attributes\<close>

text \<open>
  \<open>VSentinel\<close> is the object \<open>_unspecified_parent\<close>; \<open>VModule r\<close> is a reference to
  the module object at address \<open>r\<close>; \<open>VObject n\<close> is any other object, named for
  reading.
\<close>

datatype pyval =
    VNone
  | VSentinel
  | VInt int
  | VStr string
  | VList "pyval list"
  | VTuple "pyval list"
  | VArray array
  | VVariable variable
  | VScope scope
  | VModule nat
  | VObject string

definition global_name :: "string \<Rightarrow> error + pyval" where
  "global_name n = (if n \<in> set module_globals then Inr (VObject n) else Inl (NameError n))"

subsection \<open>The lifecycle-state record\<close>

text \<open>
  The dataclass \<open>_ModuleInternalState\<close>. \<open>autoname_cursor\<close> is a dict from class name
  to counter; it is \<open>None\<close> only in the class-level default
  \<open>_uninitialized_module_internal_state\<close>.
\<close>

record module_internal_state =
  in_compact_method :: bool
  in_setup :: bool
  last_varname :: "string option"
  autoname_cursor :: "(string \<rightharpoonup> nat) option"

definition ModuleInternalState :: module_internal_state where
  "ModuleInternalState =
     \<lparr>in_compact_method = False, in_setup = False, last_varname = None,
      autoname_cursor = Some Map.empty\<rparr>"

definition reset :: "module_internal_state \<Rightarrow> module_internal_state" where
  "reset s =
     s\<lparr>in_compact_method := False, in_setup := False, last_varname := None,
       autoname_cursor := Some Map.empty\<rparr>"

definition uninitialized_module_internal_state :: module_internal_state where
  "uninitialized_module_internal_state =
     \<lparr>in_compact_method = False, in_setup = False, last_varname = None,
      autoname_cursor = None\<rparr>"

subsection \<open>A module instance\<close>

text \<open>
  What the children dict holds under a name: a submodule, or the collection of a
  variable.
\<close>

datatype child = ChildModule nat | ChildCollection string

text \<open>
  A module instance. \<open>class_name\<close> is \<open>self.__class__.__name__\<close>;
  \<open>class_dict_names\<close> are the keys of the \<open>__dict__\<close> of every class in the MRO;
  \<open>dataclass_fields\<close> are the keys of \<open>__dataclass_fields__\<close>, in order (the declared
  configuration fields, then \<open>parent\<close> and \<open>name\<close>); \<open>attrs\<close> is the instance
  \<open>__dict__\<close> for every attribute but the three the binder gives a type of their own:
  \<open>_state\<close>, \<open>scope\<close> and \<open>children\<close>.
\<close>

record module =
  class_name :: string
  class_dict_names :: "string list"
  dataclass_fields :: "string list"
  attrs :: "string \<rightharpoonup> pyval"
  state :: module_internal_state
  scope :: "scope option"
  children :: "string \<rightharpoonup> child"

definition runtime_attr_names :: "string list" where
  "runtime_attr_names = [''_state'', ''scope'', ''children'']"

text \<open>\<open>_all_names_on_object\<close>: the instance's attribute names and its classes'.\<close>

definition all_names_on_object :: "module \<Rightarrow> string set" where
  "all_names_on_object obj =
     dom (attrs obj) \<union> set runtime_attr_names \<union> set (class_dict_names obj)"

text \<open>
  \<open>Module._name_taken\<close>. Reading \<open>self.scope.reservations\<close> on a module whose scope
  is \<open>None\<close> raises \<open>AttributeError\<close>.
\<close>

definition name_taken :: "module \<Rightarrow> string \<Rightarrow> error + bool" where
  "name_taken self name =
     (case scope self of
        None \<Rightarrow> Inl (AttributeError ''reservations'')
      | Some sc \<Rightarrow> Inr (name \<in> reservations sc \<or> name \<in> all_names_on_object self))"

text \<open>The property \<open>Module._initialization_allowed\<close>.\<close>

definition initialization_allowed :: "module \<Rightarrow> bool" where
  "initialization_allowed self = (in_setup (state self) \<or> in_compact_method (state self))"

section \<open>Declaring variables and parameters\<close>

text \<open>The messages of the two lifecycle errors.\<close>

definition variable_phase_message :: string where
  "variable_phase_message =
     ''Variables must be initialized in `setup()` or in a method wrapped in `@compact`''"

definition param_phase_message :: string where
  "param_phase_message =
     ''Parameters must be initialized in `setup()` or in a method wrapped in `@compact`''"

text \<open>
  \<open>Module.variable(self, col, name, init_fn, *init_args)\<close>. The result pairs what the
  call returns or raises with the module as the call leaves it. The body reads the name
  \<open>kind\<close>, which is neither a parameter nor a local: it is looked up among the globals.
\<close>

definition variable ::
  "module \<Rightarrow> string \<Rightarrow> string \<Rightarrow> ('a \<Rightarrow> array) \<Rightarrow> 'a \<Rightarrow> (error + variable) \<times> module" where
  "variable self col name init_fn init_args =
     (if \<not> initialization_allowed self then
        (Inl (ValueError variable_phase_message),
         self)
      else
        (case name_taken self name of
           Inl e \<Rightarrow> (Inl e, self)
         | Inr True \<Rightarrow>
             (Inl (ValueError (''Name '' @ name @ '' already in use in '' @ class_name self @ ''.'')),
              self)
         | Inr False \<Rightarrow>
             (let self1 = self\<lparr>state := (state self)\<lparr>last_varname := Some name\<rparr>\<rparr> in
              case scope self1 of
                None \<Rightarrow> (Inl (AttributeError ''variable''), self1)
              | Some sc \<Rightarrow>
                  (case global_name ''kind'' of
                     Inl e \<Rightarrow> (Inl e, self1)
                   | Inr (VStr kind) \<Rightarrow>
                       (let (v, sc') = scope_variable sc kind name init_fn init_args in
                        (Inr v,
                         self1\<lparr>scope := Some sc',
                               children := (children self1)(name \<mapsto> ChildCollection kind)\<rparr>))
                   | Inr _ \<Rightarrow> (Inl (TypeError ''kind''), self1)))))"

text \<open>\<open>Module.param(self, name, init_fn, *init_args)\<close>.\<close>

definition param ::
  "module \<Rightarrow> string \<Rightarrow> ('a \<Rightarrow> array) \<Rightarrow> 'a \<Rightarrow> (error + array) \<times> module" where
  "param self name init_fn init_args =
     (if \<not> initialization_allowed self then
        (Inl (ValueError param_phase_message),
         self)
      else
        (case name_taken self name of
           Inl e \<Rightarrow> (Inl e, self)
         | Inr True \<Rightarrow>
             (Inl (ValueError (''Name '' @ name @ '' already in use in '' @ class_name self @ ''.'')),
              self)
         | Inr False \<Rightarrow>
             (let self1 = self\<lparr>state := (state self)\<lparr>last_varname := Some name\<rparr>\<rparr> in
              case scope self1 of
                None \<Rightarrow> (Inl (AttributeError ''param''), self1)
              | Some sc \<Rightarrow>
                  (let (v, sc') = scope_param sc name init_fn init_args in
                   (Inr v,
                    self1\<lparr>scope := Some sc',
                          children := (children self1)(name \<mapsto> ChildCollection ''params'')\<rparr>)))))"

section \<open>Objects, the module stack and user code\<close>

text \<open>
  Module objects are shared and mutated in place (a child writes to its parent, a method
  body may write to any module it reaches), so they live in a store: \<open>heap w r\<close> is the
  module object at address \<open>r\<close>. \<open>module_stack\<close> is \<open>_context.module_stack\<close>, whose
  bottom entry is \<open>None\<close>; \<open>omnistaging_enabled\<close> is \<open>jax.config.omnistaging_enabled\<close>.
\<close>

record world =
  heap :: "nat \<Rightarrow> module"
  module_stack :: "nat option list"
  omnistaging_enabled :: bool

text \<open>A piece of code that runs on the world and returns a value or raises.\<close>

type_synonym 'a action = "world \<Rightarrow> (error + 'a) \<times> world"

definition ret :: "'a \<Rightarrow> 'a action" where
  "ret x w = (Inr x, w)"

definition raise :: "error \<Rightarrow> 'a action" where
  "raise e w = (Inl e, w)"

definition bind :: "'a action \<Rightarrow> ('a \<Rightarrow> 'b action) \<Rightarrow> 'b action" where
  "bind m f w = (case m w of (Inl e, w') \<Rightarrow> (Inl e, w') | (Inr x, w') \<Rightarrow> f x w')"

definition update_module :: "nat \<Rightarrow> (module \<Rightarrow> module) \<Rightarrow> unit action" where
  "update_module r f w = (Inr (), w\<lparr>heap := (heap w)(r := f (heap w r))\<rparr>)"

section \<open>Method instrumentation\<close>

text \<open>
  A user-defined method \<open>fun\<close>: its \<open>__name__\<close>, whether it carries the attribute
  \<open>compact\<close>, and its body applied to \<open>self\<close> (the other arguments are fixed in the
  body).
\<close>

record 'r user_method =
  method_name :: string
  has_compact :: bool
  body :: "nat \<Rightarrow> 'r action"

text \<open>
  The \<open>finally\<close> block of \<open>wrapped_module_method\<close>: pop the stack, rewind the scope
  after a compact method, reset the state after a compact method or \<open>setup\<close>. A
  statement that raises ends the block.
\<close>

definition method_cleanup :: "bool \<Rightarrow> bool \<Rightarrow> nat \<Rightarrow> unit action" where
  "method_cleanup is_compact_method is_setup_method self w =
     (if module_stack w = [] then (Inl (IndexError ''pop from empty list''), w)
      else
        (let w1 = w\<lparr>module_stack := butlast (module_stack w)\<rparr> in
         if is_compact_method then
           (case scope (heap w1 self) of
              None \<Rightarrow> (Inl (AttributeError ''rewound''), w1)
            | Some sc \<Rightarrow>
                update_module self
                  (\<lambda>m. m\<lparr>scope := Some (rewound sc), state := reset (state m)\<rparr>) w1)
         else if is_setup_method then
           update_module self (\<lambda>m. m\<lparr>state := reset (state m)\<rparr>) w1
         else (Inr (), w1)))"

text \<open>
  \<open>wrap_method(fun)\<close>, that is \<open>wrapped_module_method(self, *args, **kwargs)\<close>. An
  exception of the \<open>finally\<close> block replaces the outcome of the body.
\<close>

definition wrapped_module_method :: "'r user_method \<Rightarrow> nat \<Rightarrow> 'r action" where
  "wrapped_module_method fun self w =
     (let is_compact_method = has_compact fun;
          is_setup_method = (method_name fun = ''setup'')
      in
      if scope (heap w self) = None then
        (Inl (ValueError ''Can't call methods on orphaned modules''), w)
      else
        (let w1 =
               (if is_compact_method then
                  snd (update_module self
                         (\<lambda>m. m\<lparr>state := (state m)\<lparr>in_compact_method := True\<rparr>\<rparr>) w)
                else if is_setup_method then
                  snd (update_module self
                         (\<lambda>m. m\<lparr>state := (state m)\<lparr>in_setup := True\<rparr>\<rparr>) w)
                else w);
             w2 = w1\<lparr>module_stack := module_stack w1 @ [Some self]\<rparr>;
             (r, w3) = body fun self w2
         in case method_cleanup is_compact_method is_setup_method self w3 of
              (Inl e, w4) \<Rightarrow> (Inl e, w4)
            | (Inr _, w4) \<Rightarrow> (r, w4)))"

text \<open>A method body that declares one variable, or one parameter, on \<open>self\<close>.\<close>

definition declares_variable ::
  "string \<Rightarrow> string \<Rightarrow> ('a \<Rightarrow> array) \<Rightarrow> 'a \<Rightarrow> nat \<Rightarrow> variable action" where
  "declares_variable col name init_fn init_args self w =
     (let (r, m) = variable (heap w self) col name init_fn init_args
      in (r, w\<lparr>heap := (heap w)(self := m)\<rparr>))"

definition declares_param ::
  "string \<Rightarrow> ('a \<Rightarrow> array) \<Rightarrow> 'a \<Rightarrow> nat \<Rightarrow> array action" where
  "declares_param name init_fn init_args self w =
     (let (r, m) = param (heap w self) name init_fn init_args
      in (r, w\<lparr>heap := (heap w)(self := m)\<rparr>))"

section \<open>Attribute assignment and construction\<close>

text \<open>
  The value of a field: the instance attribute, else the class-level default
  (\<open>_unspecified_parent\<close> for \<open>parent\<close>, \<open>None\<close> for \<open>name\<close>).
\<close>

definition field_value :: "module \<Rightarrow> string \<Rightarrow> pyval" where
  "field_value self f =
     (case attrs self f of
        Some v \<Rightarrow> v
      | None \<Rightarrow> if f = ''parent'' then VSentinel else VNone)"

text \<open>
  \<open>Module.__setattr__(self, name, val)\<close>. In the third branch the iterable of the
  \<open>for\<close> statement is the call \<open>get_suffix_value_pairs(val)\<close>, whose callee is a
  global name. The loop itself (attaching each submodule leaf, checking the name of each
  array leaf) works on what \<open>flax.serialization\<close>, \<open>jax\<close> and \<open>numpy\<close> return, none
  of which is among the sources: it is the parameter \<open>attach\<close>, applied to the callable
  that the lookup found. The last statement, \<open>object.__setattr__(self, name, val)\<close>, is
  \<open>store\<close>: it writes \<open>attrs\<close>, or the typed field when the attribute is \<open>_state\<close>,
  \<open>scope\<close> or \<open>children\<close>.
\<close>

type_synonym attach = "pyval \<Rightarrow> nat \<Rightarrow> string \<Rightarrow> pyval \<Rightarrow> unit action"

definition setattr_with ::
  "attach \<Rightarrow> nat \<Rightarrow> string \<Rightarrow> pyval \<Rightarrow> (module \<Rightarrow> module) \<Rightarrow> unit action" where
  "setattr_with attach self name val store =
     bind
       (\<lambda>w. if name = ''parent'' then ret () w
            else if name \<in> set (dataclass_fields (heap w self)) then ret () w
            else
              (case global_name ''get_suffix_value_pairs'' of
                 Inl e \<Rightarrow> raise e w
               | Inr f \<Rightarrow> attach f self name val w))
       (\<lambda>_. update_module self store)"

definition setattr :: "attach \<Rightarrow> nat \<Rightarrow> string \<Rightarrow> pyval \<Rightarrow> unit action" where
  "setattr attach self name val =
     setattr_with attach self name val (\<lambda>m. m\<lparr>attrs := (attrs m)(name \<mapsto> val)\<rparr>)"

text \<open>\<open>_check_omnistaging\<close>.\<close>

definition check_omnistaging :: "unit action" where
  "check_omnistaging w =
     (if \<not> omnistaging_enabled w then
        (Inl (RuntimeError
           (''Flax linen API requires JAX omnistaging to be enabled:'' @ [CHR 0x0A] @
            ''  from jax.config import config'' @ [CHR 0x0A] @
            ''  config.enable_omnistaging()'')), w)
      else (Inr (), w))"

text \<open>\<open>_context.module_stack[-1]\<close>.\<close>

definition module_stack_top :: "pyval action" where
  "module_stack_top w =
     (case module_stack w of
        [] \<Rightarrow> (Inl (IndexError ''list index out of range''), w)
      | _ \<Rightarrow> (Inr (case last (module_stack w) of None \<Rightarrow> VNone | Some r \<Rightarrow> VModule r), w))"

text \<open>The decimal digits of a counter, as an f-string prints them.\<close>

function string_of_nat :: "nat \<Rightarrow> string" where
  "string_of_nat n =
     (if n < 10 then [''0123456789'' ! n]
      else string_of_nat (n div 10) @ [''0123456789'' ! (n mod 10)])"
  by pat_completeness auto
termination
  by (relation "measure id") auto

text \<open>
  The autonaming block of \<open>__post_init__\<close> on the dict \<open>autoname_cursor\<close>: the name
  it gives, and the dict afterwards.
\<close>

definition autoname :: "string \<Rightarrow> (string \<rightharpoonup> nat) \<Rightarrow> string \<times> (string \<rightharpoonup> nat)" where
  "autoname prefix cursors =
     (let cursor = (case cursors prefix of None \<Rightarrow> 0 | Some c \<Rightarrow> c)
      in (prefix @ ''_'' @ string_of_nat cursor, cursors(prefix \<mapsto> cursor + 1)))"



definition autoname_submodule :: "attach \<Rightarrow> nat \<Rightarrow> nat \<Rightarrow> unit action" where
  "autoname_submodule attach self p w =
     (case autoname_cursor (state (heap w p)) of
        None \<Rightarrow> (Inl (AttributeError ''get''), w)
      | Some cursors \<Rightarrow>
          (let (name, cursors') = autoname (class_name (heap w self)) cursors in
           bind (setattr attach self ''name'' (VStr name))
             (\<lambda>_. update_module p
                (\<lambda>m. m\<lparr>state := (state m)\<lparr>autoname_cursor := Some cursors'\<rparr>\<rparr>)) w))"

text \<open>
  The branch of \<open>__post_init__\<close> for a parent that is a module. It returns \<open>False\<close>
  when \<open>__post_init__\<close> returns early (an unnamed module made inside \<open>setup\<close>, whose
  initialisation is deferred), \<open>True\<close> when \<open>setup\<close> is to be called next.
\<close>

definition register_on_parent :: "attach \<Rightarrow> nat \<Rightarrow> nat \<Rightarrow> bool action" where
  "register_on_parent attach self p w =
     (if in_setup (state (heap w p)) \<and> field_value (heap w self) ''name'' = VNone then
        (Inr False, w)
      else if \<not> initialization_allowed (heap w p) then
        (Inl (ValueError
           ''Submodules must be defined in `setup()` or in a method wrapped in `@compact`''), w)
      else
        bind
          (if field_value (heap w self) ''name'' = VNone
           then autoname_submodule attach self p else ret ())
          (\<lambda>_ w1.
             case field_value (heap w1 self) ''name'' of
               VStr name \<Rightarrow>
                 (case name_taken (heap w1 p) name of
                    Inl e \<Rightarrow> (Inl e, w1)
                  | Inr True \<Rightarrow>
                      (Inl (ValueError
                         (''A variable of name '' @ name @ '' exists already, or '' @
                          ''trying to share submodule '' @ class_name (heap w1 self) @
                          '' by name '' @ name @ ''. To share submodules, store module '' @
                          ''instances as a Python object or as an attribute on self and reuse.'')),
                       w1)
                  | Inr False \<Rightarrow>
                      bind
                        (update_module p
                           (\<lambda>m. m\<lparr>children := (children m)(name \<mapsto> ChildModule self)\<rparr>))
                        (\<lambda>_ w2.
                           case scope (heap w2 p) of
                             None \<Rightarrow> (Inl (AttributeError ''push''), w2)
                           | Some sc \<Rightarrow>
                               bind
                                 (setattr_with attach self ''scope'' (VScope (push sc name))
                                    (\<lambda>m. m\<lparr>scope := Some (push sc name)\<rparr>))
                                 (\<lambda>_. ret True) w2)
                        w1)
             | _ \<Rightarrow> (Inl (TypeError ''name''), w1))
          w)"

text \<open>
  \<open>Module.__post_init__\<close>. \<open>setup\<close> is the class's \<open>setup\<close> method as
  \<open>self.setup()\<close> finds it.
\<close>

definition post_init :: "attach \<Rightarrow> (nat \<Rightarrow> unit action) \<Rightarrow> nat \<Rightarrow> unit action" where
  "post_init attach setup self =
     bind check_omnistaging (\<lambda>_.
     bind (setattr_with attach self ''_state'' (VObject ''_ModuleInternalState'')
             (\<lambda>m. m\<lparr>state := ModuleInternalState\<rparr>)) (\<lambda>_.
     bind (setattr_with attach self ''children'' (VObject ''dict'')
             (\<lambda>m. m\<lparr>children := Map.empty\<rparr>)) (\<lambda>_.
     bind (\<lambda>w. if field_value (heap w self) ''parent'' = VSentinel
               then bind module_stack_top (\<lambda>top. setattr attach self ''parent'' top) w
               else ret () w) (\<lambda>_ w.
       case field_value (heap w self) ''parent'' of
         VNone \<Rightarrow> ret () w
       | VModule p \<Rightarrow>
           bind (register_on_parent attach self p)
             (\<lambda>continue. if continue then setup self else ret ()) w
       | VScope sc \<Rightarrow>
           bind (setattr_with attach self ''scope'' (VScope sc) (\<lambda>m. m\<lparr>scope := Some sc\<rparr>))
             (\<lambda>_. setup self) w
       | _ \<Rightarrow> raise (ValueError ''parent must be None, Module or Scope'') w))))"

section \<open>Hashing\<close>

text \<open>
  \<open>_wrap_hash(hash_fn)\<close>. \<open>hash_fn\<close> is the \<open>__hash__\<close> the dataclass transform
  generated; like every Python hash it returns an integer or raises.
\<close>

definition wrap_hash :: "(module \<Rightarrow> error + int) \<Rightarrow> module \<Rightarrow> error + int" where
  "wrap_hash hash_fn self =
     (if scope self \<noteq> None then
        Inl (ValueError ''Can't call __hash__ on modules that hold variables.'')
      else hash_fn self)"

text \<open>
  \<open>dataclasses.dataclass(cls, unsafe_hash=True, repr=False)\<close> generates a \<open>__hash__\<close>
  that hashes the tuple of the fields' values, \<open>parent\<close> and \<open>name\<close> included.
  \<open>hash_value\<close> is Python's \<open>hash\<close>.
\<close>

definition dataclass_hash :: "(pyval \<Rightarrow> error + int) \<Rightarrow> module \<Rightarrow> error + int" where
  "dataclass_hash hash_value self =
     hash_value (VTuple (map (field_value self) (dataclass_fields self)))"

text \<open>\<open>cls.__hash__ = _wrap_hash(cls.__hash__)\<close>.\<close>

definition module_hash :: "(pyval \<Rightarrow> error + int) \<Rightarrow> module \<Rightarrow> error + int" where
  "module_hash hash_value = wrap_hash (dataclass_hash hash_value)"

text \<open>
  Python's \<open>hash\<close> on plain data: a list is unhashable, a tuple hashes its elements from
  left to right and combines the results, and every other value has the hash \<open>leaf\<close>
  gives it (which may raise: a module that holds a scope does).
\<close>

fun collect :: "(error + 'a) list \<Rightarrow> error + 'a list" where
  "collect [] = Inr []"
| "collect (Inl e # rs) = Inl e"
| "collect (Inr x # rs) = (case collect rs of Inl e \<Rightarrow> Inl e | Inr xs \<Rightarrow> Inr (x # xs))"

fun py_hash :: "(pyval \<Rightarrow> error + int) \<Rightarrow> (int list \<Rightarrow> int) \<Rightarrow> pyval \<Rightarrow> error + int" where
  "py_hash leaf combine (VList xs) = Inl (TypeError ''unhashable type: list'')"
| "py_hash leaf combine (VTuple xs) =
     (case collect (map (py_hash leaf combine) xs) of
        Inl e \<Rightarrow> Inl e
      | Inr hs \<Rightarrow> Inr (combine hs))"
| "py_hash leaf combine v = leaf v"

section \<open>Subclass registration\<close>

text \<open>
  One entry of \<open>inspect.getmembers(cls)\<close>: whether the member is callable and whether
  it has an attribute \<open>compact\<close>. A class is the list of its members (inherited ones
  included), by name.
\<close>

record member =
  is_callable :: bool
  has_compact_attr :: bool

definition compact_error_message :: string where
  "compact_error_message =
     ''Only one method per class can be @compact. You can remove @compact '' @
     ''and define submodules and variables in setup(), or use two '' @
     ''separate modules.''"

text \<open>\<open>getattr(cls, method_name)\<close>, for a name that \<open>getmembers\<close> returned.\<close>

definition hasattr_compact :: "(string \<times> member) list \<Rightarrow> string \<Rightarrow> bool" where
  "hasattr_compact cls name =
     (case map_of cls name of Some m \<Rightarrow> has_compact_attr m | None \<Rightarrow> False)"

text \<open>\<open>Module._verify_single_or_no_compact\<close>.\<close>

definition verify_single_or_no_compact :: "(string \<times> member) list \<Rightarrow> error + unit" where
  "verify_single_or_no_compact cls =
     (let methods = map fst (filter (\<lambda>m. is_callable (snd m)) cls);
          n_compact_fns = length (filter (hasattr_compact cls) methods)
      in if n_compact_fns > 1 then Inl (RuntimeError compact_error_message) else Inr ())"

text \<open>Whether a message contains a name.\<close>

fun mentions :: "string \<Rightarrow> string \<Rightarrow> bool" where
  "mentions [] n = (n = [])"
| "mentions (c # cs) n = (take (length n) (c # cs) = n \<or> mentions cs n)"

section \<open>The prefetch iterator\<close>

text \<open>
  Where the worker thread stands in \<open>_prefetch_loop\<close>: about to call
  \<open>next(self._data_iter)\<close>; holding the item it got, before it takes the lock; holding
  the exception it caught, before it takes the lock; inside \<open>wait_for(_predicate)\<close>;
  returned.
\<close>

datatype 'a worker = Fetching | Holding 'a | Caught error | Waiting | Finished

text \<open>
  A \<open>PrefetchIterator\<close>. The wrapped iterator is the list of items it has yet to yield
  and the exception it raises after them (\<open>StopIteration\<close> when it is exhausted); only
  the worker reads it. \<open>thread\<close> is the worker's position. \<open>constructed\<close> tells whether
  \<open>__init__\<close> has run its last statement, \<open>self._error = None\<close>, which comes after
  \<open>self._thread.start()\<close>. Every block under \<open>with self._cond\<close> is one atomic step.
\<close>

record 'a prefetch_iterator =
  data_iter :: "'a list"
  data_end :: error
  buffer_size :: int
  buffer :: "'a list"
  active :: bool
  error :: "error option"
  thread :: "'a worker"
  constructed :: bool

text \<open>The iterator as \<open>self._thread.start()\<close> leaves it.\<close>

definition started :: "'a list \<Rightarrow> error \<Rightarrow> int \<Rightarrow> 'a prefetch_iterator" where
  "started xs e n =
     \<lparr>data_iter = xs, data_end = e, buffer_size = n, buffer = [], active = True,
      error = None, thread = Fetching, constructed = False\<rparr>"

text \<open>\<open>_predicate\<close> of \<open>_prefetch_loop\<close>.\<close>

definition predicate :: "'a prefetch_iterator \<Rightarrow> bool" where
  "predicate s = (int (length (buffer s)) < buffer_size s \<or> \<not> active s)"

text \<open>
  One step of the worker in \<open>_prefetch_loop\<close>; \<open>None\<close> when it cannot move (it waits
  for the predicate, or it has returned). \<open>wait_for\<close> returns at once, with the lock
  held, when the predicate already holds.
\<close>

definition prefetch_loop :: "'a prefetch_iterator \<Rightarrow> 'a prefetch_iterator option" where
  "prefetch_loop s =
     (case thread s of
        Fetching \<Rightarrow>
          (case data_iter s of
             item # rest \<Rightarrow> Some (s\<lparr>data_iter := rest, thread := Holding item\<rparr>)
           | [] \<Rightarrow> Some (s\<lparr>thread := Caught (data_end s)\<rparr>))
      | Holding item \<Rightarrow>
          (let s1 = s\<lparr>buffer := buffer s @ [item]\<rparr> in
           if predicate s1
           then Some (s1\<lparr>thread := (if \<not> active s1 then Finished else Fetching)\<rparr>)
           else Some (s1\<lparr>thread := Waiting\<rparr>))
      | Waiting \<Rightarrow>
          (if predicate s
           then Some (s\<lparr>thread := (if \<not> active s then Finished else Fetching)\<rparr>)
           else None)
      | Caught e \<Rightarrow> Some (s\<lparr>error := Some e, active := False, thread := Finished\<rparr>)
      | Finished \<Rightarrow> None)"

text \<open>
  \<open>PrefetchIterator.__next__\<close>: \<open>None\<close> while \<open>wait_for\<close> blocks (the buffer is empty
  and the iterator is active), else what the call returns or raises, and the iterator
  afterwards.
\<close>

definition next_item ::
  "'a prefetch_iterator \<Rightarrow> ((error + 'a) \<times> 'a prefetch_iterator) option" where
  "next_item s =
     (if buffer s = [] \<and> active s then None
      else
        (case buffer s of
           item # rest \<Rightarrow> Some (Inr item, s\<lparr>buffer := rest\<rparr>)
         | [] \<Rightarrow>
             (case error s of
                Some e \<Rightarrow> Some (Inl e, s)
              | None \<Rightarrow> Some (Inl StopIteration, s))))"

text \<open>\<open>PrefetchIterator.close\<close>.\<close>

definition close :: "'a prefetch_iterator \<Rightarrow> 'a prefetch_iterator" where
  "close s = s\<lparr>active := False\<rparr>"

text \<open>
  Who moves next: the worker, the constructor (its last statement), a \<open>next\<close> call of
  the consumer, or a \<open>close\<close> call. The consumer holds the iterator only once the
  constructor has returned. A step gives the new state and what the consumer received.
\<close>

datatype label = Producer | Init | Next | Close

fun step ::
  "label \<Rightarrow> 'a prefetch_iterator \<Rightarrow> ('a prefetch_iterator \<times> (error + 'a) list) option" where
  "step Producer s =
     (case prefetch_loop s of None \<Rightarrow> None | Some s' \<Rightarrow> Some (s', []))"
| "step Init s =
     (if constructed s then None else Some (s\<lparr>error := None, constructed := True\<rparr>, []))"
| "step Next s =
     (if constructed s
      then (case next_item s of None \<Rightarrow> None | Some (r, s') \<Rightarrow> Some (s', [r]))
      else None)"
| "step Close s = (if constructed s then Some (close s, []) else None)"

text \<open>
  A schedule is one interleaving of the threads; running it gives the final state and
  everything the consumer received, in order, or \<open>None\<close> when the schedule asks a
  thread to move that cannot.
\<close>

fun run ::
  "label list \<Rightarrow> 'a prefetch_iterator \<Rightarrow> ('a prefetch_iterator \<times> (error + 'a) list) option" where
  "run [] s = Some (s, [])"
| "run (l # ls) s =
     (case step l s of
        None \<Rightarrow> None
      | Some (s1, out1) \<Rightarrow>
          (case run ls s1 of
             None \<Rightarrow> None
           | Some (s2, out2) \<Rightarrow> Some (s2, out1 @ out2)))"



subsection \<open>Invariants of the prefetch iterator\<close>


text \<open>
  What holds as long as nobody has called \<open>close\<close>: the iterator is active exactly
  until the worker has returned, and the worker returns only when the source has raised.
\<close>

definition undisturbed :: "'a prefetch_iterator \<Rightarrow> bool" where
  "undisturbed s =
     (active s = (thread s \<noteq> Finished)
      \<and> (thread s = Finished \<longrightarrow> data_iter s = [])
      \<and> (case error s of None \<Rightarrow> True | Some e \<Rightarrow> e = data_end s)
      \<and> (case thread s of Caught e \<Rightarrow> e = data_end s \<and> data_iter s = [] | _ \<Rightarrow> True))"


section \<open>Example objects\<close>

text \<open>A class \<open>Dense\<close> with one configuration field, and instances of it.\<close>

definition dense_class_dict_names :: "string list" where
  "dense_class_dict_names =
     [''__call__'', ''features'', ''parent'', ''name'', ''_state'', ''scope'', ''setup'',
      ''variable'', ''param'', ''clone'', ''apply'', ''init'']"

definition root_scope :: scope where
  "root_scope = \<lparr>path = [], reservations = {}, variables = Map.empty\<rparr>"

definition dense_unbound :: module where
  "dense_unbound =
     \<lparr>class_name = ''Dense'', class_dict_names = dense_class_dict_names,
      dataclass_fields = [''features'', ''parent'', ''name''],
      attrs = [''features'' \<mapsto> VInt 16, ''parent'' \<mapsto> VNone, ''name'' \<mapsto> VNone],
      state = ModuleInternalState, scope = None, children = Map.empty\<rparr>"

definition dense_in_setup :: module where
  "dense_in_setup =
     dense_unbound\<lparr>attrs := (attrs dense_unbound)(''parent'' \<mapsto> VScope root_scope),
                   state := ModuleInternalState\<lparr>in_setup := True\<rparr>,
                   scope := Some root_scope\<rparr>"

definition no_attach :: attach where
  "no_attach f self name val = ret ()"

definition mlp_in_compact :: module where
  "mlp_in_compact =
     \<lparr>class_name = ''MLP'', class_dict_names = dense_class_dict_names,
      dataclass_fields = [''parent'', ''name''],
      attrs = [''parent'' \<mapsto> VScope root_scope, ''name'' \<mapsto> VNone],
      state = ModuleInternalState\<lparr>in_compact_method := True\<rparr>,
      scope = Some root_scope, children = Map.empty\<rparr>"

definition dense_new :: module where
  "dense_new =
     dense_unbound\<lparr>attrs := (attrs dense_unbound)(''parent'' \<mapsto> VSentinel),
                   state := uninitialized_module_internal_state\<rparr>"

definition world_in_compact :: world where
  "world_in_compact =
     \<lparr>heap = (\<lambda>_. dense_unbound)(0 := mlp_in_compact, 1 := dense_new),
      module_stack = [None, Some 0], omnistaging_enabled = True\<rparr>"



definition world_orphan :: world where
  "world_orphan =
     \<lparr>heap = (\<lambda>_. dense_unbound), module_stack = [None], omnistaging_enabled = True\<rparr>"

definition call_method :: "int user_method" where
  "call_method = \<lparr>method_name = ''__call__'', has_compact = True, body = (\<lambda>self. ret 0)\<rparr>"

definition dense_list_field :: module where
  "dense_list_field =
     dense_unbound\<lparr>attrs := (attrs dense_unbound)(''features'' \<mapsto> VList [VInt 16, VInt 4])\<rparr>"

definition dense_unbound_twin :: module where
  "dense_unbound_twin =
     dense_unbound\<lparr>state := ModuleInternalState\<lparr>last_varname := Some ''kernel''\<rparr>\<rparr>"

definition const_hash :: "pyval \<Rightarrow> error + int" where
  "const_hash v = Inr 1"

definition two_compact_class :: "(string \<times> member) list" where
  "two_compact_class =
     [(''__call__'', \<lparr>is_callable = True, has_compact_attr = True\<rparr>),
      (''features'', \<lparr>is_callable = False, has_compact_attr = False\<rparr>),
      (''forward'', \<lparr>is_callable = True, has_compact_attr = True\<rparr>),
      (''setup'', \<lparr>is_callable = True, has_compact_attr = False\<rparr>)]"

text \<open>Sources, schedules and states of the prefetch iterator.\<close>

definition boom :: error where
  "boom = UserError ''boom''"







definition one_compact_class :: "(string \<times> member) list" where
  "one_compact_class =
     [(''__call__'', \<lparr>is_callable = True, has_compact_attr = True\<rparr>),
      (''features'', \<lparr>is_callable = False, has_compact_attr = False\<rparr>),
      (''setup'', \<lparr>is_callable = True, has_compact_attr = False\<rparr>)]"

section \<open>Results\<close>

subsection \<open>Declaring variables and parameters\<close>

lemma variable_name_error:
  assumes "initialization_allowed self" and "name_taken self name = Inr False"
  shows "variable self col name init_fn init_args =
           (Inl (NameError ''kind''),
            self\<lparr>state := (state self)\<lparr>last_varname := Some name\<rparr>\<rparr>)"
proof -
  from assms(2) obtain sc where "scope self = Some sc"
    by (auto simp: name_taken_def split: option.splits)
  moreover have "global_name ''kind'' = Inl (NameError ''kind'')"
    by (simp add: global_name_def module_globals_def)
  ultimately show ?thesis
    using assms by (simp add: variable_def)
qed

text \<open>
  C1. Inside \<open>setup\<close>, with a bound scope and a free name, \<open>variable\<close> does not
  reach the scope: after recording the name for the attribute check it evaluates the
  unbound global \<open>kind\<close> (the parameter is called \<open>col\<close>) and raises \<open>NameError\<close>.
  Nothing is created in the scope and nothing is registered in the children dict.
\<close>

theorem variable_raises_name_error:
  "variable dense_in_setup ''params'' ''kernel'' init_fn init_args =
     (Inl (NameError ''kind''),
      dense_in_setup\<lparr>state := (state dense_in_setup)\<lparr>last_varname := Some ''kernel''\<rparr>\<rparr>)"
proof -
  have "initialization_allowed dense_in_setup"
    by (simp add: initialization_allowed_def dense_in_setup_def)
  moreover have "name_taken dense_in_setup ''kernel'' = Inr False"
    by (simp add: name_taken_def dense_in_setup_def dense_unbound_def root_scope_def
        all_names_on_object_def runtime_attr_names_def dense_class_dict_names_def)
  ultimately show ?thesis by (rule variable_name_error)
qed

text \<open>
  C2. Calling \<open>variable\<close> or \<open>param\<close> while the lifecycle state is neither
  \<open>in_setup\<close> nor \<open>in_compact_method\<close> raises \<open>ValueError\<close>, whatever the arguments,
  and leaves the module exactly as it was.
\<close>

theorem variable_param_outside_lifecycle:
  assumes "\<not> in_setup (state self)" and "\<not> in_compact_method (state self)"
  shows "variable self col name init_fn init_args =
           (Inl (ValueError variable_phase_message), self)
       \<and> param self name init_fn' init_args' =
           (Inl (ValueError param_phase_message), self)"
  using assms by (simp add: variable_def param_def initialization_allowed_def)

theorem variable_param_outside_lifecycle_witness:
  "\<not> in_setup (state dense_unbound) \<and> \<not> in_compact_method (state dense_unbound)
   \<and> variable dense_unbound ''params'' ''kernel'' (\<lambda>_. Array [0]) () =
       (Inl (ValueError variable_phase_message), dense_unbound)
   \<and> param dense_unbound ''kernel'' (\<lambda>_. Array [0]) () =
       (Inl (ValueError param_phase_message), dense_unbound)"
proof -
  have a: "\<not> in_setup (state dense_unbound)"
    by (simp add: dense_unbound_def ModuleInternalState_def)
  have b: "\<not> in_compact_method (state dense_unbound)"
    by (simp add: dense_unbound_def ModuleInternalState_def)
  show ?thesis
    using a b variable_param_outside_lifecycle
      [OF a b, of "''params''" "''kernel''" "\<lambda>_. Array [0]" "()" "\<lambda>_. Array [0]" "()"]
    by simp
qed

subsection \<open>Construction\<close>

lemma global_name_get_suffix_value_pairs:
  "global_name ''get_suffix_value_pairs'' = Inl (NameError ''get_suffix_value_pairs'')"
  by (simp add: global_name_def module_globals_def)

lemma setattr_with_name_error:
  assumes "name \<noteq> ''parent''" and "name \<notin> set (dataclass_fields (heap w self))"
  shows "setattr_with attach self name val store w =
           (Inl (NameError ''get_suffix_value_pairs''), w)"
  using assms
  by (simp add: setattr_with_def bind_def raise_def global_name_get_suffix_value_pairs)

lemma post_init_name_error:
  assumes "omnistaging_enabled w" and "''_state'' \<notin> set (dataclass_fields (heap w self))"
  shows "post_init attach setup self w = (Inl (NameError ''get_suffix_value_pairs''), w)"
  using assms
  by (simp add: post_init_def bind_def check_omnistaging_def setattr_with_name_error)

text \<open>
  Constructing an unnamed \<open>Dense\<close> while its parent runs a compact method: the first
  assignment of \<open>__post_init__\<close>, \<open>self._state = ...\<close>, goes through
  \<open>__setattr__\<close>, whose third branch evaluates the unbound global
  \<open>get_suffix_value_pairs\<close> (the helper is called \<open>_get_suffix_value_pairs\<close>) and
  raises \<open>NameError\<close>, whatever the loop and \<open>setup\<close> would do. The statements after
  it, the autonaming block among them, are not run.
\<close>

lemma post_init_raises_name_error:
  "post_init attach setup 1 world_in_compact =
     (Inl (NameError ''get_suffix_value_pairs''), world_in_compact)"
proof -
  have "omnistaging_enabled world_in_compact"
    by (simp add: world_in_compact_def)
  moreover have "''_state'' \<notin> set (dataclass_fields (heap world_in_compact 1))"
    by (simp add: world_in_compact_def dense_new_def dense_unbound_def)
  ultimately show ?thesis by (rule post_init_name_error)
qed

lemma setattr_stores:
  assumes "name = ''parent'' \<or> name \<in> set (dataclass_fields (heap w self))"
  shows "setattr attach self name val w =
           (Inr (), w\<lparr>heap := (heap w)(self := (heap w self)\<lparr>attrs := (attrs (heap w self))(name \<mapsto> val)\<rparr>)\<rparr>)"
  using assms
  by (auto simp: setattr_def setattr_with_def bind_def ret_def update_module_def)









subsection \<open>Method instrumentation\<close>

text \<open>
  C4. Invoking an instrumented method on a module whose scope is \<open>None\<close> raises
  \<open>ValueError\<close> and leaves the world unchanged, whatever the method's body is: the body
  is not run.
\<close>

theorem orphaned_module_method_rejected:
  assumes "scope (heap w self) = None"
  shows "wrapped_module_method fun self w =
           (Inl (ValueError ''Can't call methods on orphaned modules''), w)"
  using assms by (simp add: wrapped_module_method_def)

theorem orphaned_module_method_rejected_witness:
  "scope (heap world_orphan 0) = None
   \<and> wrapped_module_method call_method 0 world_orphan =
       (Inl (ValueError ''Can't call methods on orphaned modules''), world_orphan)"
proof -
  have a: "scope (heap world_orphan 0) = None"
    by (simp add: world_orphan_def dense_unbound_def)
  show ?thesis
    using a orphaned_module_method_rejected [OF a, of call_method] by simp
qed

text \<open>
  A method that is neither \<open>setup\<close> nor compact leaves the lifecycle flags as they
  are, so a declaration in its body is rejected and the world is as before the call.
\<close>

lemma variable_in_plain_method:
  assumes "scope (heap w self) \<noteq> None"
    and "\<not> in_setup (state (heap w self))" and "\<not> in_compact_method (state (heap w self))"
    and "n \<noteq> ''setup''"
  shows "wrapped_module_method
           \<lparr>method_name = n, has_compact = False,
            body = declares_variable col name init_fn init_args\<rparr> self w =
         (Inl (ValueError variable_phase_message), w)"
  using assms
  by (auto simp: wrapped_module_method_def declares_variable_def method_cleanup_def
      variable_def initialization_allowed_def)

lemma param_in_plain_method:
  assumes "scope (heap w self) \<noteq> None"
    and "\<not> in_setup (state (heap w self))" and "\<not> in_compact_method (state (heap w self))"
    and "n \<noteq> ''setup''"
  shows "wrapped_module_method
           \<lparr>method_name = n, has_compact = False,
            body = declares_param name init_fn init_args\<rparr> self w =
         (Inl (ValueError param_phase_message), w)"
  using assms
  by (auto simp: wrapped_module_method_def declares_param_def method_cleanup_def
      param_def initialization_allowed_def)

subsection \<open>Configuration fields\<close>

lemma variable_attrs: "attrs (snd (variable self col name init_fn init_args)) = attrs self"
  by (simp add: variable_def Let_def split: sum.splits bool.splits option.splits pyval.splits prod.splits)

lemma param_attrs: "attrs (snd (param self name init_fn init_args)) = attrs self"
  by (simp add: param_def Let_def split: sum.splits bool.splits option.splits prod.splits)

text \<open>
  C5, as the code has it. Configuration fields are not protected against assignment:
  \<open>__setattr__\<close> on a declared field makes no check, in any lifecycle state, and stores
  the new value, changing nothing else; \<open>variable\<close> and \<open>param\<close> never change an
  attribute.
\<close>

theorem setattr_accepts_configuration_field:
  assumes "name \<in> set (dataclass_fields (heap w self))"
  shows "setattr attach self name val w =
           (Inr (), w\<lparr>heap := (heap w)(self := (heap w self)\<lparr>attrs := (attrs (heap w self))(name \<mapsto> val)\<rparr>)\<rparr>)
       \<and> field_value (heap (snd (setattr attach self name val w)) self) name = val
       \<and> attrs (snd (variable m col n init_fn init_args)) = attrs m
       \<and> attrs (snd (param m n init_fn' init_args')) = attrs m"
  using assms by (simp add: setattr_stores variable_attrs param_attrs field_value_def)

theorem setattr_accepts_configuration_field_witness:
  "''features'' \<in> set (dataclass_fields (heap world_orphan 0))
   \<and> setattr no_attach 0 ''features'' (VInt 32) world_orphan =
       (Inr (), world_orphan\<lparr>heap := (heap world_orphan)
          (0 := (heap world_orphan 0)\<lparr>attrs := (attrs (heap world_orphan 0))(''features'' \<mapsto> VInt 32)\<rparr>)\<rparr>)
   \<and> attrs (snd (param dense_in_setup ''kernel'' (\<lambda>_. Array [0]) ())) = attrs dense_in_setup"
proof -
  have a: "''features'' \<in> set (dataclass_fields (heap world_orphan 0))"
    by (simp add: world_orphan_def dense_unbound_def)
  show ?thesis
    using a setattr_accepts_configuration_field
      [OF a, of no_attach "VInt 32" dense_in_setup "''params''" "''kernel''"
        "\<lambda>_. Array [0]" "()" "\<lambda>_. Array [0]" "()"]
    by simp
qed

text \<open>
  C5 as stated fails: assigning to the field \<open>features\<close> of a constructed module
  succeeds and changes its value from 16 to 32.
\<close>

theorem configuration_field_reassigned:
  "field_value (heap world_orphan 0) ''features'' = VInt 16
   \<and> fst (setattr no_attach 0 ''features'' (VInt 32) world_orphan) = Inr ()
   \<and> field_value (heap (snd (setattr no_attach 0 ''features'' (VInt 32) world_orphan)) 0)
         ''features'' = VInt 32"
  by (simp add: setattr_def setattr_with_def bind_def ret_def update_module_def
      world_orphan_def dense_unbound_def field_value_def)

subsection \<open>Hashing\<close>

lemma wrap_hash_bound:
  "scope self \<noteq> None \<Longrightarrow>
   wrap_hash hash_fn self =
     Inl (ValueError ''Can't call __hash__ on modules that hold variables.'')"
  by (simp add: wrap_hash_def)

lemma wrap_hash_unbound: "scope self = None \<Longrightarrow> wrap_hash hash_fn self = hash_fn self"
  by (simp add: wrap_hash_def)

lemma dataclass_hash_cong:
  assumes "dataclass_fields other = dataclass_fields self"
    and "\<forall>f \<in> set (dataclass_fields self). field_value other f = field_value self f"
  shows "dataclass_hash hash_value other = dataclass_hash hash_value self"
proof -
  have eq: "map (field_value other) (dataclass_fields self) =
        map (field_value self) (dataclass_fields self)"
    using assms(2) by simp
  show ?thesis by (simp only: dataclass_hash_def assms(1) eq)
qed

text \<open>
  C8, as the code has it. Hashing a module that holds a scope raises \<open>ValueError\<close>.
  Hashing a module that holds none is the dataclass hash of its fields: two such modules
  with the same fields and field values hash alike, and the hash succeeds when every
  field value hashes.
\<close>

theorem module_hash_outcome:
  "(scope self \<noteq> None \<longrightarrow>
      module_hash hash_value self =
        Inl (ValueError ''Can't call __hash__ on modules that hold variables.''))
   \<and> (scope self = None \<longrightarrow> module_hash hash_value self = dataclass_hash hash_value self)
   \<and> (scope self = None \<and> scope other = None
        \<and> dataclass_fields other = dataclass_fields self
        \<and> (\<forall>f \<in> set (dataclass_fields self). field_value other f = field_value self f) \<longrightarrow>
        module_hash hash_value other = module_hash hash_value self)
   \<and> (scope self = None
        \<and> collect (map (py_hash leaf combine) (map (field_value self) (dataclass_fields self))) =
            Inr hs \<longrightarrow>
        module_hash (py_hash leaf combine) self = Inr (combine hs))"
proof (intro conjI impI)
  assume "scope self \<noteq> None"
  then show "module_hash hash_value self =
      Inl (ValueError ''Can't call __hash__ on modules that hold variables.'')"
    by (simp add: module_hash_def wrap_hash_bound)
next
  assume "scope self = None"
  then show "module_hash hash_value self = dataclass_hash hash_value self"
    by (simp add: module_hash_def wrap_hash_unbound)
next
  assume a: "scope self = None \<and> scope other = None
        \<and> dataclass_fields other = dataclass_fields self
        \<and> (\<forall>f \<in> set (dataclass_fields self). field_value other f = field_value self f)"
  then have "dataclass_hash hash_value other = dataclass_hash hash_value self"
    by (intro dataclass_hash_cong) simp_all
  with a show "module_hash hash_value other = module_hash hash_value self"
    by (simp add: module_hash_def wrap_hash_unbound)
next
  assume "scope self = None
        \<and> collect (map (py_hash leaf combine) (map (field_value self) (dataclass_fields self))) =
            Inr hs"
  then show "module_hash (py_hash leaf combine) self = Inr (combine hs)"
    by (simp add: module_hash_def wrap_hash_unbound dataclass_hash_def)
qed

theorem module_hash_outcome_witness:
  "scope dense_in_setup \<noteq> None
   \<and> module_hash (py_hash const_hash sum_list) dense_in_setup =
        Inl (ValueError ''Can't call __hash__ on modules that hold variables.'')
   \<and> scope dense_unbound = None
   \<and> module_hash (py_hash const_hash sum_list) dense_unbound =
        dataclass_hash (py_hash const_hash sum_list) dense_unbound
   \<and> scope dense_unbound_twin = None
   \<and> dense_unbound_twin \<noteq> dense_unbound
   \<and> module_hash (py_hash const_hash sum_list) dense_unbound_twin =
        module_hash (py_hash const_hash sum_list) dense_unbound
   \<and> module_hash (py_hash const_hash sum_list) dense_unbound = Inr 3"
proof -
  have a: "scope dense_in_setup \<noteq> None"
    by (simp add: dense_in_setup_def)
  have b: "scope dense_unbound = None"
    by (simp add: dense_unbound_def)
  have b': "scope dense_unbound_twin = None"
    by (simp add: dense_unbound_twin_def dense_unbound_def)
  have ne: "dense_unbound_twin \<noteq> dense_unbound"
  proof
    assume "dense_unbound_twin = dense_unbound"
    then have "last_varname (state dense_unbound_twin) = last_varname (state dense_unbound)"
      by simp
    then show False
      by (simp add: dense_unbound_twin_def dense_unbound_def ModuleInternalState_def)
  qed
  have same: "scope dense_unbound = None \<and> scope dense_unbound_twin = None
      \<and> dataclass_fields dense_unbound_twin = dataclass_fields dense_unbound
      \<and> (\<forall>f \<in> set (dataclass_fields dense_unbound).
            field_value dense_unbound_twin f = field_value dense_unbound f)"
    by (simp add: dense_unbound_twin_def dense_unbound_def field_value_def)
  have c: "collect (map (py_hash const_hash sum_list)
             (map (field_value dense_unbound) (dataclass_fields dense_unbound))) = Inr [1, 1, 1]"
    by (simp add: dense_unbound_def field_value_def const_hash_def)
  note g1 = module_hash_outcome [of dense_in_setup "py_hash const_hash sum_list", THEN conjunct1]
  note g = module_hash_outcome
    [of dense_unbound "py_hash const_hash sum_list" dense_unbound_twin const_hash sum_list
      "[1, 1, 1]"]
  note g2 = g [THEN conjunct2, THEN conjunct1]
  note g3 = g [THEN conjunct2, THEN conjunct2, THEN conjunct1]
  note g4 = g [THEN conjunct2, THEN conjunct2, THEN conjunct2]
  have r1: "module_hash (py_hash const_hash sum_list) dense_in_setup =
        Inl (ValueError ''Can't call __hash__ on modules that hold variables.'')"
    using g1 a by (rule mp)
  have r2: "module_hash (py_hash const_hash sum_list) dense_unbound =
        dataclass_hash (py_hash const_hash sum_list) dense_unbound"
    using g2 b by (rule mp)
  have r3: "module_hash (py_hash const_hash sum_list) dense_unbound_twin =
        module_hash (py_hash const_hash sum_list) dense_unbound"
    using g3 same by (rule mp)
  have "module_hash (py_hash const_hash sum_list) dense_unbound = Inr (sum_list [1, 1, 1])"
    using g4 conjI [OF b c] by (rule mp)
  then have r4: "module_hash (py_hash const_hash sum_list) dense_unbound = Inr 3"
    by simp
  from a r1 b r2 b' ne r3 r4 show ?thesis by blast
qed

text \<open>
  C8 as stated fails: a module with no scope whose field \<open>features\<close> holds a list
  cannot be hashed.
\<close>

theorem unbound_module_hash_raises:
  "scope dense_list_field = None
   \<and> module_hash (py_hash const_hash sum_list) dense_list_field =
       Inl (TypeError ''unhashable type: list'')"
  by (simp add: module_hash_def wrap_hash_def dataclass_hash_def dense_list_field_def
      dense_unbound_def field_value_def)

subsection \<open>Subclass registration\<close>

lemma hasattr_compact_member:
  assumes "distinct (map fst cls)" and "x \<in> set cls"
  shows "hasattr_compact cls (fst x) = has_compact_attr (snd x)"
proof -
  from assms have "map_of cls (fst x) = Some (snd x)"
    by (cases x) simp
  then show ?thesis by (simp add: hasattr_compact_def)
qed

lemma compact_count:
  assumes "distinct (map fst cls)"
  shows "filter (hasattr_compact cls) (map fst (filter (\<lambda>m. is_callable (snd m)) cls)) =
         map fst (filter (\<lambda>(n, m). is_callable m \<and> has_compact_attr m) cls)"
proof -
  have "filter (hasattr_compact cls) (map fst (filter (\<lambda>m. is_callable (snd m)) cls)) =
        map fst (filter (\<lambda>x. is_callable (snd x) \<and> hasattr_compact cls (fst x)) cls)"
    by (simp add: filter_map comp_def conj_commute)
  also have "filter (\<lambda>x. is_callable (snd x) \<and> hasattr_compact cls (fst x)) cls =
             filter (\<lambda>(n, m). is_callable m \<and> has_compact_attr m) cls"
    by (rule filter_cong) (auto simp: hasattr_compact_member [OF assms])
  finally show ?thesis .
qed

text \<open>
  C9, as the code has it. The check raises \<open>RuntimeError\<close> with one fixed message when
  more than one callable member carries \<open>compact\<close>, and returns normally otherwise.
\<close>

theorem verify_single_or_no_compact_outcome:
  assumes "distinct (map fst cls)"
  shows "verify_single_or_no_compact cls =
           (if 1 < length (filter (\<lambda>(n, m). is_callable m \<and> has_compact_attr m) cls)
            then Inl (RuntimeError compact_error_message) else Inr ())"
  by (simp add: verify_single_or_no_compact_def compact_count [OF assms])

theorem verify_single_or_no_compact_outcome_witness:
  "distinct (map fst two_compact_class)
   \<and> verify_single_or_no_compact two_compact_class = Inl (RuntimeError compact_error_message)
   \<and> distinct (map fst one_compact_class)
   \<and> verify_single_or_no_compact one_compact_class = Inr ()"
proof -
  have d2: "distinct (map fst two_compact_class)"
    by (simp add: two_compact_class_def)
  have d1: "distinct (map fst one_compact_class)"
    by (simp add: one_compact_class_def)
  from verify_single_or_no_compact_outcome [OF d2]
  have r2: "verify_single_or_no_compact two_compact_class =
            Inl (RuntimeError compact_error_message)"
    by (simp add: two_compact_class_def)
  from verify_single_or_no_compact_outcome [OF d1]
  have r1: "verify_single_or_no_compact one_compact_class = Inr ()"
    by (simp add: one_compact_class_def)
  from d2 r2 d1 r1 show ?thesis by blast
qed

text \<open>
  C9 as stated fails: for a class with the compact methods \<open>__call__\<close> and
  \<open>forward\<close> the error names neither.
\<close>

theorem compact_error_names_no_method:
  "verify_single_or_no_compact two_compact_class = Inl (RuntimeError compact_error_message)
   \<and> \<not> mentions compact_error_message ''__call__''
   \<and> \<not> mentions compact_error_message ''forward''"
  by (simp add: verify_single_or_no_compact_def two_compact_class_def hasattr_compact_def
      compact_error_message_def)

subsection \<open>The prefetch iterator: what every schedule preserves\<close>























text \<open>
  With room for at least one item and nobody calling \<open>close\<close>, the worker or the
  consumer can always move.
\<close>

lemma no_deadlock:
  assumes "0 < buffer_size s" and "constructed s" and "undisturbed s"
  shows "step Producer s \<noteq> None \<or> step Next s \<noteq> None"
proof (cases "thread s")
  case Waiting
  show ?thesis
  proof (cases "predicate s")
    case True
    with Waiting show ?thesis by (simp add: prefetch_loop_def)
  next
    case False
    with assms(1) have "buffer s \<noteq> []"
      by (auto simp: predicate_def)
    with assms(2) show ?thesis
      by (auto simp: next_item_def split: list.splits)
  qed
next
  case Finished
  with assms(3) have "\<not> active s" by (simp add: undisturbed_def)
  with assms(2) show ?thesis
    by (auto simp: next_item_def split: list.splits option.splits)
qed (simp_all add: prefetch_loop_def Let_def split: list.splits)

subsection \<open>The prefetch iterator: errors\<close>



text \<open>
  The constructor starts the worker before it assigns \<open>self._error = None\<close>. When
  the source raises at once and the worker records the error before that assignment
  runs, the error is overwritten and the consumer sees plain exhaustion.
\<close>

lemma error_overwritten_by_constructor:
  "map_option snd (run [Producer, Producer, Init, Next] (started ([] :: int list) boom 1)) =
     Some [Inl StopIteration]"
  by (simp add: started_def prefetch_loop_def next_item_def boom_def)


subsection \<open>The prefetch iterator: order\<close>



subsection \<open>The prefetch iterator: close\<close>



end
